theory Spec2Isabelle
  imports Complex_Main
begin

section \<open>The planner service of \<^verbatim>\<open>planner_py/planner_server.py\<close>\<close>

subsection \<open>Messages\<close>

text \<open>
  \<^verbatim>\<open>PlannerServicer.Plan\<close> reads a \<^verbatim>\<open>PlanRequest\<close> and fills a
  \<^verbatim>\<open>PlanResponse\<close>. Both are protocol-buffer messages declared in the generated module
  \<^verbatim>\<open>scheduler_pb2\<close>, which is not among the sources. The records below hold the fields
  that \<^verbatim>\<open>Plan\<close> reads and writes, under the names it uses (\<^verbatim>\<open>id\<close> is
  \<open>t_id\<close> on a task and \<open>w_id\<close> on a worker), and the fields of the data model of the
  design document that \<^verbatim>\<open>Plan\<close> never touches.

  Numbers are unbounded and finite: \<open>estimated_sec\<close> is a rational, which covers an integer
  field as well as every finite floating-point value, and the integer fields of an
  assignment are \<open>int\<close>.
\<close>

record Resources =
  cpu :: nat
  memory :: nat
  gpu :: nat

text \<open>
  Modelled from the spec: the declaration of the \<^verbatim>\<open>Task\<close> message is missing.
  \<open>t_id\<close> and \<open>estimated_sec\<close> are the two fields \<^verbatim>\<open>Plan\<close> reads; \<open>request\<close> is
  the resource footprint (cpu, memory and gpu request) of the data model.
\<close>

record Task =
  t_id :: string
  estimated_sec :: rat
  request :: Resources

text \<open>
  Modelled from the spec: the declaration of the \<^verbatim>\<open>Worker\<close> message is missing.
  \<open>w_id\<close> is the one field \<^verbatim>\<open>Plan\<close> reads; \<open>capacity\<close> is the declared
  cpu, memory and gpu ceiling of the data model.
\<close>

record Worker =
  w_id :: string
  capacity :: Resources

record PlanRequest =
  tasks :: "Task list"
  workers :: "Worker list"

record Assignment =
  task_id :: string
  worker_id :: string
  start_unix :: int
  est_duration_sec :: int

text \<open>
  Modelled from the spec: the declaration of the \<^verbatim>\<open>PlanResponse\<close> message is missing.
  \<open>plan_id\<close>, \<open>status_message\<close> and \<open>assignments\<close> are the fields \<^verbatim>\<open>Plan\<close>
  writes; \<open>unplaced_task_id\<close> is the list of unplaced task ids of the data model's plan.
\<close>

record PlanResponse =
  plan_id :: string
  status_message :: string
  assignments :: "Assignment list"
  unplaced_task_id :: "string list"

text \<open>A freshly constructed message has every field at its default: empty or zero.\<close>

definition new_Assignment :: Assignment where
  "new_Assignment = \<lparr>task_id = [], worker_id = [], start_unix = 0, est_duration_sec = 0\<rparr>"

definition new_PlanResponse :: PlanResponse where
  "new_PlanResponse =
     \<lparr>plan_id = [], status_message = [], assignments = [], unplaced_task_id = []\<rparr>"

subsection \<open>The planning call\<close>

text \<open>Python's \<^verbatim>\<open>int(x)\<close> on a number drops the fractional part, rounding towards zero.\<close>

definition py_int :: "rat \<Rightarrow> int" where
  "py_int x = (if 0 \<le> x then \<lfloor>x\<rfloor> else \<lceil>x\<rceil>)"

text \<open>
  The body of the loop for the task \<open>t\<close> at index \<open>i\<close>: the entry that
  \<^verbatim>\<open>resp.assignments.add()\<close> creates, after the assignments to its fields.
\<close>

definition add_assignment :: "Worker list \<Rightarrow> nat \<Rightarrow> Task \<Rightarrow> Assignment" where
  "add_assignment ws i t =
     (let a = new_Assignment\<lparr>task_id := t_id t\<rparr>
      in if length ws > 0
         then a\<lparr>worker_id := w_id (ws ! (i mod length ws)),
                start_unix := 0,
                est_duration_sec := py_int (estimated_sec t)\<rparr>
         else a)"

text \<open>
  The loop \<^verbatim>\<open>for i, t in enumerate(request.tasks)\<close>: the index counts up from its
  start value and each iteration appends one entry to the response.
\<close>

fun Plan_loop :: "Worker list \<Rightarrow> nat \<Rightarrow> Task list \<Rightarrow> PlanResponse \<Rightarrow> PlanResponse" where
  "Plan_loop ws i [] resp = resp"
| "Plan_loop ws i (t # ts) resp =
     Plan_loop ws (Suc i) ts
       (resp\<lparr>assignments := assignments resp @ [add_assignment ws i t]\<rparr>)"

definition Plan :: "PlanRequest \<Rightarrow> PlanResponse" where
  "Plan req =
     Plan_loop (workers req) 0 (tasks req)
       (new_PlanResponse\<lparr>plan_id := ''plan-stub-1'', status_message := ''stub plan''\<rparr>)"

text \<open>
  A planning call is made at some wall-clock time (unix seconds). \<^verbatim>\<open>Plan\<close> takes the
  servicer, the request and the RPC context; it reads neither the clock nor any state of the
  servicer or the context, so the response is that of \<open>Plan\<close> whatever the time of the call.
\<close>

definition Plan_at :: "int \<Rightarrow> PlanRequest \<Rightarrow> PlanResponse" where
  "Plan_at now req = Plan req"

subsection \<open>The notions of the design document\<close>

text \<open>
  Modelled from the spec: the allocation committed to a worker, in one dimension, by the
  first \<open>n\<close> tasks of a planning call, namely the sum of the requests of those among them
  whose entry in the plan names the worker. The plan lists its entries in the order of the
  batch, so task and entry are paired by position.
\<close>

definition committed :: "(Resources \<Rightarrow> nat) \<Rightarrow> PlanRequest \<Rightarrow> nat \<Rightarrow> string \<Rightarrow> nat" where
  "committed qty req n wid =
     sum_list (map (\<lambda>(t, a). qty (request t))
       (filter (\<lambda>(t, a). worker_id a = wid)
         (take n (zip (tasks req) (assignments (Plan req))))))"

text \<open>Modelled from the spec: the allocation of a worker within the whole planning call.\<close>

definition allocated :: "(Resources \<Rightarrow> nat) \<Rightarrow> PlanRequest \<Rightarrow> string \<Rightarrow> nat" where
  "allocated qty req wid = committed qty req (length (tasks req)) wid"

text \<open>
  Modelled from the spec: the capacity invariant for one worker, the allocation within the
  planning call not exceeding the declared capacity in any of the three dimensions.
\<close>

definition within_capacity :: "PlanRequest \<Rightarrow> Worker \<Rightarrow> bool" where
  "within_capacity req w \<longleftrightarrow>
     allocated cpu req (w_id w) \<le> cpu (capacity w) \<and>
     allocated memory req (w_id w) \<le> memory (capacity w) \<and>
     allocated gpu req (w_id w) \<le> gpu (capacity w)"

text \<open>
  The round-robin share of a worker id in one dimension: the total request of the tasks
  whose position \<open>i\<close> in the batch selects, by \<open>i mod n\<close> with \<open>n\<close> the number of
  workers, a worker of that id. It is computed from the request alone.
\<close>

definition round_robin_share :: "(Resources \<Rightarrow> nat) \<Rightarrow> PlanRequest \<Rightarrow> string \<Rightarrow> nat" where
  "round_robin_share qty req wid =
     sum_list (map (\<lambda>i. qty (request (tasks req ! i)))
       (filter (\<lambda>i. w_id (workers req ! (i mod length (workers req))) = wid)
         [0..<length (tasks req)]))"

text \<open>
  Modelled from the spec: a worker is a candidate for the task at position \<open>i\<close> when its
  residual capacity, the capacity less what the planning pass committed to it before that
  task, covers the task's request in all three dimensions. The request message carries no
  telemetry, so no allocation of an already running task is subtracted.
\<close>

definition candidate :: "PlanRequest \<Rightarrow> nat \<Rightarrow> Worker \<Rightarrow> bool" where
  "candidate req i w \<longleftrightarrow>
     committed cpu req i (w_id w) + cpu (request (tasks req ! i)) \<le> cpu (capacity w) \<and>
     committed memory req i (w_id w) + memory (request (tasks req ! i)) \<le> memory (capacity w) \<and>
     committed gpu req i (w_id w) + gpu (request (tasks req ! i)) \<le> gpu (capacity w)"

text \<open>
  Modelled from the spec: the square of the Euclidean norm of a request vector, and a
  batch in largest-first order. The square root is increasing, so the order by the squared
  norm is the order by the norm.
\<close>

definition norm_sq :: "Resources \<Rightarrow> nat" where
  "norm_sq r = cpu r * cpu r + memory r * memory r + gpu r * gpu r"

definition largest_first :: "Task list \<Rightarrow> bool" where
  "largest_first ts = sorted_wrt (\<lambda>s t. norm_sq (request t) \<le> norm_sq (request s)) ts"

subsection \<open>Example requests\<close>

text \<open>
  A scenario of the design document: the single worker \<open>W1\<close> with 4 cpu and 4 memory, and
  the task \<open>T1\<close> asking for 8 cpu and 1 memory.
\<close>

definition W1 :: Worker where
  "W1 = \<lparr>w_id = ''W1'', capacity = \<lparr>cpu = 4, memory = 4, gpu = 0\<rparr>\<rparr>"

definition T1 :: Task where
  "T1 = \<lparr>t_id = ''T1'', estimated_sec = 30, request = \<lparr>cpu = 8, memory = 1, gpu = 0\<rparr>\<rparr>"

definition oversized_request :: PlanRequest where
  "oversized_request = \<lparr>tasks = [T1], workers = [W1]\<rparr>"

text \<open>The same task with no worker at all.\<close>

definition no_worker_request :: PlanRequest where
  "no_worker_request = \<lparr>tasks = [T1], workers = []\<rparr>"

text \<open>Two tasks of 3 cpu each for the one worker of 4 cpu.\<close>

definition T2 :: Task where
  "T2 = \<lparr>t_id = ''T2'', estimated_sec = 10, request = \<lparr>cpu = 3, memory = 1, gpu = 0\<rparr>\<rparr>"

definition T3 :: Task where
  "T3 = \<lparr>t_id = ''T3'', estimated_sec = 10, request = \<lparr>cpu = 3, memory = 1, gpu = 0\<rparr>\<rparr>"

definition crowded_request :: PlanRequest where
  "crowded_request = \<lparr>tasks = [T2, T3], workers = [W1]\<rparr>"

text \<open>
  Two workers and three tasks, submitted smallest first, with durations that are not whole
  numbers.
\<close>

definition W2 :: Worker where
  "W2 = \<lparr>w_id = ''W2'', capacity = \<lparr>cpu = 8, memory = 16, gpu = 0\<rparr>\<rparr>"

definition small :: Task where
  "small = \<lparr>t_id = ''small'', estimated_sec = 27 / 10, request = \<lparr>cpu = 1, memory = 0, gpu = 0\<rparr>\<rparr>"

definition big :: Task where
  "big = \<lparr>t_id = ''big'', estimated_sec = - (3 / 2), request = \<lparr>cpu = 2, memory = 0, gpu = 0\<rparr>\<rparr>"

definition round_robin_request :: PlanRequest where
  "round_robin_request = \<lparr>tasks = [small, big, T2], workers = [W1, W2]\<rparr>"

text \<open>A single small task for a worker that holds it.\<close>

definition fitting_request :: PlanRequest where
  "fitting_request = \<lparr>tasks = [small], workers = [W2]\<rparr>"

text \<open>
  The same ids and durations as in the request before, with every request raised to 100
  in each dimension and every capacity lowered to nothing.
\<close>

definition starved_request :: PlanRequest where
  "starved_request =
     \<lparr>tasks =
        [\<lparr>t_id = ''small'', estimated_sec = 27 / 10,
          request = \<lparr>cpu = 100, memory = 100, gpu = 100\<rparr>\<rparr>,
         \<lparr>t_id = ''big'', estimated_sec = - (3 / 2),
          request = \<lparr>cpu = 100, memory = 100, gpu = 100\<rparr>\<rparr>,
         \<lparr>t_id = ''T2'', estimated_sec = 10,
          request = \<lparr>cpu = 100, memory = 100, gpu = 100\<rparr>\<rparr>],
      workers =
        [\<lparr>w_id = ''W1'', capacity = \<lparr>cpu = 0, memory = 0, gpu = 0\<rparr>\<rparr>,
         \<lparr>w_id = ''W2'', capacity = \<lparr>cpu = 0, memory = 0, gpu = 0\<rparr>\<rparr>]\<rparr>"

subsection \<open>The loop in closed form\<close>

lemma Plan_loop_eq:
  "Plan_loop ws i ts resp =
     resp\<lparr>assignments := assignments resp @ map (\<lambda>(j, t). add_assignment ws j t) (enumerate i ts)\<rparr>"
  by (induction ts arbitrary: i resp) simp_all

lemma Plan_eq:
  "Plan req =
     \<lparr>plan_id = ''plan-stub-1'', status_message = ''stub plan'',
      assignments = map (\<lambda>(j, t). add_assignment (workers req) j t) (enumerate 0 (tasks req)),
      unplaced_task_id = []\<rparr>"
  by (simp add: Plan_def Plan_loop_eq new_PlanResponse_def)

lemma assignments_Plan:
  "assignments (Plan req) =
     map (\<lambda>(j, t). add_assignment (workers req) j t) (enumerate 0 (tasks req))"
  by (simp add: Plan_eq)

lemma length_assignments_Plan: "length (assignments (Plan req)) = length (tasks req)"
  by (simp add: assignments_Plan)

lemma nth_assignments_Plan:
  "i < length (tasks req) \<Longrightarrow>
     assignments (Plan req) ! i = add_assignment (workers req) i (tasks req ! i)"
  by (simp add: assignments_Plan nth_enumerate_eq)

lemma task_id_add_assignment: "task_id (add_assignment ws i t) = t_id t"
  by (simp add: add_assignment_def new_Assignment_def Let_def)

lemma start_unix_add_assignment: "start_unix (add_assignment ws i t) = 0"
  by (simp add: add_assignment_def new_Assignment_def Let_def)

lemma add_assignment_no_workers:
  "add_assignment [] i t = new_Assignment\<lparr>task_id := t_id t\<rparr>"
  by (simp add: add_assignment_def)

lemma add_assignment_workers:
  "ws \<noteq> [] \<Longrightarrow>
     add_assignment ws i t =
       \<lparr>task_id = t_id t, worker_id = w_id (ws ! (i mod length ws)),
        start_unix = 0, est_duration_sec = py_int (estimated_sec t)\<rparr>"
  by (simp add: add_assignment_def new_Assignment_def Let_def)

lemma map_task_id_Plan: "map task_id (assignments (Plan req)) = map t_id (tasks req)"
  by (rule nth_equalityI) (simp_all add: length_assignments_Plan nth_assignments_Plan task_id_add_assignment)

text \<open>\<open>py_int\<close> is the truncation: the integer of the same sign with the largest magnitude
  not above that of the number.\<close>

lemma py_int_nonneg: "0 \<le> x \<Longrightarrow> 0 \<le> py_int x \<and> of_int (py_int x) \<le> x \<and> x < of_int (py_int x) + 1"
  by (simp add: py_int_def) linarith

lemma py_int_neg: "x < 0 \<Longrightarrow> py_int x \<le> 0 \<and> x \<le> of_int (py_int x) \<and> of_int (py_int x) - 1 < x"
  by (simp add: py_int_def) linarith

lemma py_int_of_int: "py_int (of_int n) = n"
  by (simp add: py_int_def)

lemma assignments_Plan_no_workers:
  assumes "workers req = []"
  shows "assignments (Plan req) = map (\<lambda>t. new_Assignment\<lparr>task_id := t_id t\<rparr>) (tasks req)"
  using assms
  by (intro nth_equalityI)
    (simp_all add: length_assignments_Plan nth_assignments_Plan add_assignment_no_workers)

subsection \<open>The allocation of a worker\<close>

lemma zip_tasks_assignments_Plan:
  "zip (tasks req) (assignments (Plan req)) =
     map (\<lambda>i. (tasks req ! i, add_assignment (workers req) i (tasks req ! i)))
       [0..<length (tasks req)]"
  by (rule nth_equalityI) (simp_all add: length_assignments_Plan nth_assignments_Plan)

lemma worker_id_add_assignment:
  "ws \<noteq> [] \<Longrightarrow> worker_id (add_assignment ws i t) = w_id (ws ! (i mod length ws))"
  by (simp add: add_assignment_workers)

lemma allocated_eq_round_robin_share:
  assumes "workers req \<noteq> []"
  shows "allocated qty req wid = round_robin_share qty req wid"
proof -
  have "take (length (tasks req)) (zip (tasks req) (assignments (Plan req))) =
          zip (tasks req) (assignments (Plan req))"
    by simp
  then show ?thesis
    using assms
    by (simp add: allocated_def committed_def round_robin_share_def
        zip_tasks_assignments_Plan filter_map comp_def worker_id_add_assignment)
qed

text \<open>
  An entry of the plan is made from the task's id and duration and the workers' ids alone.
\<close>

lemma add_assignment_cong_ids:
  assumes "map w_id ws' = map w_id ws" and "t_id t' = t_id t"
    and "estimated_sec t' = estimated_sec t"
  shows "add_assignment ws' i t' = add_assignment ws i t"
proof (cases "ws = []")
  case True
  with assms(1) have "ws' = []" by simp
  with True assms(2) show ?thesis
    by (simp add: add_assignment_no_workers)
next
  case False
  from assms(1) have len: "length ws' = length ws"
    by (rule map_eq_imp_length_eq)
  with False have ne: "ws' \<noteq> []" by auto
  from False have lt: "i mod length ws < length ws" by simp
  have "w_id (ws' ! (i mod length ws)) = map w_id ws' ! (i mod length ws)"
    using lt len by simp
  also have "\<dots> = w_id (ws ! (i mod length ws))"
    using lt by (simp add: assms(1))
  finally show ?thesis
    using False ne len assms(2,3) by (simp add: add_assignment_workers)
qed

lemma assignments_Plan_cong_ids:
  assumes "map t_id (tasks req') = map t_id (tasks req)"
    and "map estimated_sec (tasks req') = map estimated_sec (tasks req)"
    and "map w_id (workers req') = map w_id (workers req)"
  shows "assignments (Plan req') = assignments (Plan req)"
proof (rule nth_equalityI)
  from assms(1) have len: "length (tasks req') = length (tasks req)"
    by (rule map_eq_imp_length_eq)
  then show "length (assignments (Plan req')) = length (assignments (Plan req))"
    by (simp add: length_assignments_Plan)
  fix i
  assume "i < length (assignments (Plan req'))"
  then have i: "i < length (tasks req)" and i': "i < length (tasks req')"
    using len by (simp_all add: length_assignments_Plan)
  have "t_id (tasks req' ! i) = map t_id (tasks req') ! i"
    using i' by simp
  also have "\<dots> = t_id (tasks req ! i)"
    using i by (simp add: assms(1))
  finally have t: "t_id (tasks req' ! i) = t_id (tasks req ! i)" .
  have "estimated_sec (tasks req' ! i) = map estimated_sec (tasks req') ! i"
    using i' by simp
  also have "\<dots> = estimated_sec (tasks req ! i)"
    using i by (simp add: assms(2))
  finally have e: "estimated_sec (tasks req' ! i) = estimated_sec (tasks req ! i)" .
  show "assignments (Plan req') ! i = assignments (Plan req) ! i"
    using i i' by (simp add: nth_assignments_Plan add_assignment_cong_ids [OF assms(3) t e])
qed

lemmas example_defs =
  W1_def W2_def T1_def T2_def T3_def small_def big_def oversized_request_def
  no_worker_request_def crowded_request_def round_robin_request_def fitting_request_def

lemmas run_defs =
  assignments_Plan enumerate_eq_zip add_assignment_def new_Assignment_def py_int_def

section \<open>The claims\<close>

text \<open>
  Claim C1. Every task of a planning call appears in exactly one of the response's
  assignments or its list of unplaced task ids: the task ids of the assignments followed by
  the unplaced task ids are the ids of the input tasks, each once and in the order of the
  batch, so that the two counts add up to the number of input tasks.
\<close>

theorem Plan_complete:
  "map task_id (assignments (Plan req)) @ unplaced_task_id (Plan req) = map t_id (tasks req) \<and>
   length (assignments (Plan req)) + length (unplaced_task_id (Plan req)) = length (tasks req)"
  by (simp add: map_task_id_Plan length_assignments_Plan) (simp add: Plan_eq)

text \<open>
  Claim C2, as amended. For every plan produced by a planning call and every worker of
  the request, the sum of the cpu, memory and gpu requests of the tasks assigned to that
  worker within the call is the worker's round-robin share, so it stays within the declared
  capacity in every dimension exactly when the share does; and the plan is made from the
  ids and durations alone: a request with the same task ids, durations and worker ids has
  the same assignments, whatever its requests and capacities.
\<close>

theorem Plan_capacity_iff_round_robin_share:
  assumes "w \<in> set (workers req)"
    and "map t_id (tasks req') = map t_id (tasks req)"
    and "map estimated_sec (tasks req') = map estimated_sec (tasks req)"
    and "map w_id (workers req') = map w_id (workers req)"
  shows "allocated cpu req (w_id w) = round_robin_share cpu req (w_id w) \<and>
         allocated memory req (w_id w) = round_robin_share memory req (w_id w) \<and>
         allocated gpu req (w_id w) = round_robin_share gpu req (w_id w) \<and>
         (within_capacity req w \<longleftrightarrow>
            round_robin_share cpu req (w_id w) \<le> cpu (capacity w) \<and>
            round_robin_share memory req (w_id w) \<le> memory (capacity w) \<and>
            round_robin_share gpu req (w_id w) \<le> gpu (capacity w)) \<and>
         assignments (Plan req') = assignments (Plan req)"
proof -
  from assms(1) have ne: "workers req \<noteq> []"
    by auto
  have "assignments (Plan req') = assignments (Plan req)"
    using assms(2-4) by (rule assignments_Plan_cong_ids)
  then show ?thesis
    by (simp add: within_capacity_def allocated_eq_round_robin_share [OF ne])
qed

theorem Plan_capacity_iff_round_robin_share_witness:
  "W1 \<in> set (workers round_robin_request) \<and>
   map t_id (tasks starved_request) = map t_id (tasks round_robin_request) \<and>
   map estimated_sec (tasks starved_request) = map estimated_sec (tasks round_robin_request) \<and>
   map w_id (workers starved_request) = map w_id (workers round_robin_request) \<and>
   allocated cpu round_robin_request (w_id W1) = 4 \<and>
   allocated memory round_robin_request (w_id W1) = 1 \<and>
   allocated gpu round_robin_request (w_id W1) = 0 \<and>
   within_capacity round_robin_request W1 \<and>
   assignments (Plan starved_request) = assignments (Plan round_robin_request)"
proof -
  let ?r = round_robin_request
  have w: "W1 \<in> set (workers ?r)"
    by (simp add: round_robin_request_def)
  have t: "map t_id (tasks starved_request) = map t_id (tasks ?r)"
    by (simp add: starved_request_def example_defs)
  have e: "map estimated_sec (tasks starved_request) = map estimated_sec (tasks ?r)"
    by (simp add: starved_request_def example_defs)
  have k: "map w_id (workers starved_request) = map w_id (workers ?r)"
    by (simp add: starved_request_def example_defs)
  have s: "round_robin_share cpu ?r (w_id W1) = 4" "round_robin_share memory ?r (w_id W1) = 1"
    "round_robin_share gpu ?r (w_id W1) = 0"
    by code_simp+
  have c: "cpu (capacity W1) = 4" "memory (capacity W1) = 4" "gpu (capacity W1) = 0"
    by (simp_all add: W1_def)
  show ?thesis
    using w t e k s c Plan_capacity_iff_round_robin_share [OF w t e k] by simp
qed

text \<open>
  Claim C2 as stated fails: two tasks of 3 cpu each are both given to the one worker of the
  request, whose capacity is 4 cpu.
\<close>

theorem Plan_capacity_counterexample:
  "W1 \<in> set (workers crowded_request) \<and>
   map worker_id (assignments (Plan crowded_request)) = [w_id W1, w_id W1] \<and>
   \<not> within_capacity crowded_request W1"
  by (simp add: within_capacity_def allocated_def committed_def run_defs example_defs)

text \<open>
  Claim C3, as amended. For every task of a planning call with a non-empty worker list,
  the worker chosen is the one at position \<open>i mod n\<close> of the worker list, \<open>i\<close> being the
  position of the task in the batch and \<open>n\<close> the number of workers; residual capacity,
  fragmentation and the order of the worker ids play no part.
\<close>

theorem Plan_chooses_round_robin:
  assumes "workers req \<noteq> []" and "i < length (tasks req)"
  shows "worker_id (assignments (Plan req) ! i) =
           w_id (workers req ! (i mod length (workers req)))"
  using assms by (simp add: nth_assignments_Plan add_assignment_workers)

theorem Plan_chooses_round_robin_witness:
  "workers round_robin_request \<noteq> [] \<and> 2 < length (tasks round_robin_request) \<and>
   worker_id (assignments (Plan round_robin_request) ! 2) = ''W1''"
proof -
  have w: "workers round_robin_request \<noteq> []"
    by (simp add: example_defs)
  have i: "2 < length (tasks round_robin_request)"
    by (simp add: example_defs)
  have h: "w_id (workers round_robin_request ! (2 mod length (workers round_robin_request))) = ''W1''"
    by code_simp
  show ?thesis
    using w i Plan_chooses_round_robin [OF w i] h by simp
qed

text \<open>
  Claim C3 as stated fails already in its first requirement, that the chosen worker be a
  candidate: the task asking for 8 cpu is given to the worker of 4 cpu, to which the pass
  has committed nothing yet.
\<close>

theorem Plan_best_fit_counterexample:
  "worker_id (assignments (Plan oversized_request) ! 0) = w_id W1 \<and>
   \<not> candidate oversized_request 0 W1"
  by (simp add: candidate_def committed_def run_defs example_defs)

text \<open>
  Claim C4. Planning is deterministic: two planning calls, made at any two times, on
  requests with the same worker list and the same task batch produce the same assignments.
\<close>

theorem Plan_deterministic:
  assumes "workers r1 = workers r2" and "tasks r1 = tasks r2"
  shows "assignments (Plan_at now1 r1) = assignments (Plan_at now2 r2)"
  using assms by (simp add: Plan_at_def assignments_Plan)

theorem Plan_deterministic_witness:
  "workers round_robin_request = workers (round_robin_request\<lparr>tasks := [small, big, T2]\<rparr>) \<and>
   tasks round_robin_request = tasks (round_robin_request\<lparr>tasks := [small, big, T2]\<rparr>) \<and>
   assignments (Plan_at 1700000000 round_robin_request) =
     assignments (Plan_at 1800000000 (round_robin_request\<lparr>tasks := [small, big, T2]\<rparr>))"
proof -
  let ?r = "round_robin_request\<lparr>tasks := [small, big, T2]\<rparr>"
  have w: "workers round_robin_request = workers ?r"
    by simp
  have t: "tasks round_robin_request = tasks ?r"
    by (simp add: round_robin_request_def)
  show ?thesis
    using w t Plan_deterministic [OF w t, of 1700000000 1800000000] by simp
qed




text \<open>
  Claim C6, as amended. The status of the plan is "stub plan" for every planning call,
  whether all, some or none of the input tasks were given a worker.
\<close>

theorem Plan_status_constant: "status_message (Plan req) = ''stub plan''"
  by (simp add: Plan_eq)

text \<open>
  Claim C6 as stated fails: the one task of the request is given a worker and the unplaced
  list is empty, yet the status is not "success".
\<close>

theorem Plan_status_counterexample:
  "map worker_id (assignments (Plan fitting_request)) = [w_id W2] \<and>
   unplaced_task_id (Plan fitting_request) = [] \<and>
   status_message (Plan fitting_request) \<noteq> ''success''"
  by (simp add: Plan_eq enumerate_eq_zip add_assignment_def new_Assignment_def example_defs)

text \<open>
  Claim C7, as amended. Every planning call processes the input tasks in submission order:
  the entry at position \<open>i\<close> of the plan is the one made for the task at position \<open>i\<close> of
  the batch with the loop index \<open>i\<close>, whatever the sizes of the requests.
\<close>

theorem Plan_submission_order:
  assumes "i < length (tasks req)"
  shows "assignments (Plan req) ! i = add_assignment (workers req) i (tasks req ! i) \<and>
         task_id (assignments (Plan req) ! i) = t_id (tasks req ! i)"
  using assms by (simp add: nth_assignments_Plan task_id_add_assignment)

theorem Plan_submission_order_witness:
  "1 < length (tasks round_robin_request) \<and>
   assignments (Plan round_robin_request) ! 1 =
     add_assignment (workers round_robin_request) 1 (tasks round_robin_request ! 1) \<and>
   task_id (assignments (Plan round_robin_request) ! 1) = ''big''"
proof -
  have i: "1 < length (tasks round_robin_request)"
    by (simp add: example_defs)
  have h: "t_id (tasks round_robin_request ! 1) = ''big''"
    by (simp add: round_robin_request_def big_def)
  note s = Plan_submission_order [OF i]
  have "task_id (assignments (Plan round_robin_request) ! 1) = t_id (tasks round_robin_request ! 1)"
    by (rule conjunct2 [OF s])
  also note h
  finally have b: "task_id (assignments (Plan round_robin_request) ! 1) = ''big''" .
  show ?thesis
    by (intro conjI) (rule i, rule conjunct1 [OF s], rule b)
qed

text \<open>
  Claim C7 as stated fails: the batch is submitted smallest first, and the plan takes the
  tasks in that order, the smallest with index 0 and so the first worker.
\<close>

theorem Plan_largest_first_counterexample:
  "map task_id (assignments (Plan round_robin_request)) = [''small'', ''big'', ''T2''] \<and>
   map worker_id (assignments (Plan round_robin_request)) = [''W1'', ''W2'', ''W1''] \<and>
   \<not> largest_first (tasks round_robin_request)"
  by (simp add: largest_first_def norm_sq_def run_defs example_defs)

text \<open>
  Claim C8, as amended. Every assignment of a plan has start time 0, whatever the time of
  the planning call; a request carries no start hint.
\<close>

theorem Plan_start_unix_zero:
  assumes "a \<in> set (assignments (Plan_at now req))"
  shows "start_unix a = 0"
  using assms by (auto simp add: Plan_at_def assignments_Plan start_unix_add_assignment)

theorem Plan_start_unix_zero_witness:
  "assignments (Plan_at 1762128000 fitting_request) ! 0
     \<in> set (assignments (Plan_at 1762128000 fitting_request)) \<and>
   start_unix (assignments (Plan_at 1762128000 fitting_request) ! 0) = 0"
proof -
  have a: "assignments (Plan_at 1762128000 fitting_request) ! 0
             \<in> set (assignments (Plan_at 1762128000 fitting_request))"
    by (simp add: Plan_at_def assignments_Plan fitting_request_def)
  show ?thesis
    using a Plan_start_unix_zero [OF a] by simp
qed

text \<open>
  Claim C8 as stated fails: a call made at unix time 1762128000 gives its one assignment a
  start time other than the time of the call.
\<close>

theorem Plan_start_now_counterexample:
  "map worker_id (assignments (Plan_at 1762128000 fitting_request)) = [w_id W2] \<and>
   start_unix (assignments (Plan_at 1762128000 fitting_request) ! 0) \<noteq> 1762128000"
  by (simp add: Plan_at_def run_defs example_defs)

text \<open>
  Claim C9. For every request with a non-empty worker list, the plan has exactly one
  assignment per input task, in input order: the assignment at position \<open>i\<close> carries the id
  of the task at position \<open>i\<close>, the id of the worker at position \<open>i mod n\<close> of the worker
  list, \<open>n\<close> being the number of workers, and as estimated duration the integer truncation
  of the task's estimated seconds.
\<close>

theorem Plan_round_robin:
  assumes "workers req \<noteq> []"
  shows "length (assignments (Plan req)) = length (tasks req) \<and>
         (\<forall>i < length (tasks req).
            task_id (assignments (Plan req) ! i) = t_id (tasks req ! i) \<and>
            worker_id (assignments (Plan req) ! i) =
              w_id (workers req ! (i mod length (workers req))) \<and>
            est_duration_sec (assignments (Plan req) ! i) =
              py_int (estimated_sec (tasks req ! i)))"
  using assms by (simp add: length_assignments_Plan nth_assignments_Plan add_assignment_workers)

theorem Plan_round_robin_witness:
  "workers round_robin_request \<noteq> [] \<and>
   length (assignments (Plan round_robin_request)) = 3 \<and>
   task_id (assignments (Plan round_robin_request) ! 0) = ''small'' \<and>
   worker_id (assignments (Plan round_robin_request) ! 0) = ''W1'' \<and>
   est_duration_sec (assignments (Plan round_robin_request) ! 0) = 2 \<and>
   task_id (assignments (Plan round_robin_request) ! 1) = ''big'' \<and>
   worker_id (assignments (Plan round_robin_request) ! 1) = ''W2'' \<and>
   est_duration_sec (assignments (Plan round_robin_request) ! 1) = - 1 \<and>
   task_id (assignments (Plan round_robin_request) ! 2) = ''T2'' \<and>
   worker_id (assignments (Plan round_robin_request) ! 2) = ''W1'' \<and>
   est_duration_sec (assignments (Plan round_robin_request) ! 2) = 10"
proof -
  let ?r = round_robin_request
  have w: "workers ?r \<noteq> []"
    by (simp add: example_defs)
  have l: "length (tasks ?r) = 3"
    by (simp add: example_defs)
  have t: "t_id (tasks ?r ! 0) = ''small''" "t_id (tasks ?r ! 1) = ''big''"
    "t_id (tasks ?r ! 2) = ''T2''"
    by (simp_all add: example_defs)
  have k: "w_id (workers ?r ! (0 mod length (workers ?r))) = ''W1''"
    "w_id (workers ?r ! (1 mod length (workers ?r))) = ''W2''"
    "w_id (workers ?r ! (2 mod length (workers ?r))) = ''W1''"
    by code_simp+
  have d: "py_int (estimated_sec (tasks ?r ! 0)) = 2" "py_int (estimated_sec (tasks ?r ! 1)) = - 1"
    "py_int (estimated_sec (tasks ?r ! 2)) = 10"
    by code_simp+
  show ?thesis
    using w l t k d Plan_round_robin [OF w] by simp
qed

text \<open>
  Claim C10. For every request with an empty worker list, the plan still has one
  assignment per input task, in input order, each with the id of its task and with worker
  id, start time and estimated duration at their defaults, empty and zero; the unplaced list
  is empty; and plan id and status message are "plan-stub-1" and "stub plan" for every
  request.
\<close>

theorem Plan_no_workers:
  "plan_id (Plan req) = ''plan-stub-1'' \<and>
   status_message (Plan req) = ''stub plan'' \<and>
   (workers req = [] \<longrightarrow>
      assignments (Plan req) =
        map (\<lambda>t. \<lparr>task_id = t_id t, worker_id = [], start_unix = 0, est_duration_sec = 0\<rparr>)
          (tasks req) \<and>
      unplaced_task_id (Plan req) = [])"
proof -
  have "plan_id (Plan req) = ''plan-stub-1''" and "status_message (Plan req) = ''stub plan''"
    and "unplaced_task_id (Plan req) = []"
    by (simp_all add: Plan_eq)
  then show ?thesis
    by (simp add: assignments_Plan_no_workers new_Assignment_def)
qed

theorem Plan_no_workers_witness:
  "workers no_worker_request = [] \<and>
   Plan no_worker_request =
     \<lparr>plan_id = ''plan-stub-1'', status_message = ''stub plan'',
      assignments = [\<lparr>task_id = ''T1'', worker_id = [], start_unix = 0, est_duration_sec = 0\<rparr>],
      unplaced_task_id = []\<rparr>"
proof -
  have w: "workers no_worker_request = []"
    by (simp add: no_worker_request_def)
  show ?thesis
    using w Plan_no_workers [of no_worker_request]
    by (simp add: no_worker_request_def T1_def)
qed

end
